theory Spec2Isabelle
  imports Complex_Main "HOL-Library.AList"
begin

section \<open>Python values used by the status dashboard\<close>

text \<open>
  The dashboard (\<^verbatim>\<open>deploy/status-dashboard/server.py\<close>) is a Python program. The values it
  handles dynamically are the results of \<^verbatim>\<open>response.json()\<close>; they are modelled by the
  datatype below. Python's \<^verbatim>\<open>None\<close> is \<open>JNull\<close>, a \<^verbatim>\<open>dict\<close> is the list of its items in
  insertion order (keys pairwise distinct).
\<close>

datatype json =
    JNull
  | JBool bool
  | JInt int
  | JFloat real
  | JStr string
  | JArr "json list"
  | JObj "(string \<times> json) list"

text \<open>Truth value of a Python object, as tested by \<^verbatim>\<open>if conductor_stats:\<close>.\<close>

fun truthy :: "json \<Rightarrow> bool" where
  "truthy JNull = False"
| "truthy (JBool b) = b"
| "truthy (JInt n) = (n \<noteq> 0)"
| "truthy (JFloat x) = (x \<noteq> 0)"
| "truthy (JStr s) = (s \<noteq> [])"
| "truthy (JArr xs) = (xs \<noteq> [])"
| "truthy (JObj kvs) = (kvs \<noteq> [])"

text \<open>
  \<^verbatim>\<open>obj.get(key, default)\<close>: only a \<^verbatim>\<open>dict\<close> has the method; on every other value the
  attribute lookup raises \<^verbatim>\<open>AttributeError\<close>, which is the result \<open>None\<close> here.
\<close>

fun py_get :: "json \<Rightarrow> string \<Rightarrow> json \<Rightarrow> json option" where
  "py_get (JObj kvs) k d = Some (case map_of kvs k of None \<Rightarrow> d | Some v \<Rightarrow> v)"
| "py_get _ k d = None"

subsection \<open>Numbers and their decimal text\<close>

text \<open>
  \<^verbatim>\<open>x // y\<close> and \<^verbatim>\<open>x % y\<close> on Python numbers round the quotient towards minus infinity;
  \<^verbatim>\<open>int(x)\<close> truncates towards zero. The argument of \<^verbatim>\<open>format_uptime\<close> is the
  integer \<^verbatim>\<open>0\<close> before the first cycle and a float afterwards; both are read as the real
  number they denote (for a finite float below \<open>2^53\<close> the float operations are exact).
\<close>

definition py_floordiv :: "real \<Rightarrow> real \<Rightarrow> real" where
  "py_floordiv x y = of_int \<lfloor>x / y\<rfloor>"

definition py_mod :: "real \<Rightarrow> real \<Rightarrow> real" where
  "py_mod x y = x - y * of_int \<lfloor>x / y\<rfloor>"

definition py_int :: "real \<Rightarrow> int" where
  "py_int x = (if x < 0 then \<lceil>x\<rceil> else \<lfloor>x\<rfloor>)"

definition digit_char :: "nat \<Rightarrow> char" where
  "digit_char d = ''0123456789'' ! d"

fun str_nat :: "nat \<Rightarrow> string" where
  "str_nat n = (if n < 10 then [digit_char n] else str_nat (n div 10) @ [digit_char (n mod 10)])"

declare str_nat.simps [simp del]

text \<open>\<^verbatim>\<open>str(i)\<close> of an integer, as an f-string field renders it.\<close>

definition str_int :: "int \<Rightarrow> string" where
  "str_int i = (if i < 0 then CHR ''-'' # str_nat (nat (- i)) else str_nat (nat i))"

section \<open>Uptime formatting\<close>

definition format_uptime :: "real \<Rightarrow> string" where
  "format_uptime seconds =
     (let days = py_int (py_floordiv seconds 86400);
          hours = py_int (py_floordiv (py_mod seconds 86400) 3600);
          minutes = py_int (py_floordiv (py_mod seconds 3600) 60)
      in if days > 0 then
           str_int days @ ''d '' @ str_int hours @ ''h '' @ str_int minutes @ ''m''
         else if hours > 0 then
           str_int hours @ ''h '' @ str_int minutes @ ''m''
         else
           str_int minutes @ ''m'')"

section \<open>Configuration and the outside world\<close>

text \<open>
  The module-level configuration, read once from the process environment, and the flag
  set by the attempt to import the Docker client library at process start.
\<close>

record config =
  NEIGHBORHOOD_ID :: string
  CONDUCTOR_URL :: string
  DATA_DIR :: string
  DOCKER_AVAILABLE :: bool

text \<open>
  What a call of \<^verbatim>\<open>requests.get\<close> or \<^verbatim>\<open>requests.post\<close> with \<^verbatim>\<open>timeout=5\<close> can do: raise
  (connection refused, timeout, any other request error), or return a response. Of a
  response the program reads the status code and, for the admin interface, the result of
  \<^verbatim>\<open>response.json()\<close>, which is \<open>None\<close> when the body is not JSON and the call raises.
\<close>

datatype http_result =
    RequestFailed
  | Response (status_code: int) (json_body: "json option")

record network =
  requests_get :: "string \<Rightarrow> http_result"
  requests_post :: "string \<Rightarrow> json \<Rightarrow> http_result"

text \<open>
  \<^verbatim>\<open>os.walk(top)\<close> is a generator: it yields triples \<^verbatim>\<open>(dirpath, dirnames, filenames)\<close> and
  may raise after any number of them (the flag). \<^verbatim>\<open>os.path.exists\<close> never raises;
  \<^verbatim>\<open>os.path.getsize\<close> raises \<^verbatim>\<open>OSError\<close> (\<open>None\<close>) when the file cannot be examined.
\<close>

type_synonym walk_entry = "string \<times> string list \<times> string list"

record filesystem =
  os_walk :: "string \<Rightarrow> walk_entry list \<times> bool"
  path_exists :: "string \<Rightarrow> bool"
  path_getsize :: "string \<Rightarrow> int option"

text \<open>
  The container runtime as seen through the Docker client: \<^verbatim>\<open>docker.from_env()\<close> returns
  a client or raises, and \<^verbatim>\<open>client.containers.get(name)\<close> followed by \<^verbatim>\<open>.status\<close> yields
  the state string, raises \<^verbatim>\<open>docker.errors.NotFound\<close>, or raises something else.
\<close>

datatype container_lookup = Found string | NotFound | OtherError

record docker_runtime =
  from_env_ok :: bool
  containers_get :: "string \<Rightarrow> container_lookup"

datatype runtime_call = FromEnv | ContainersGet string

text \<open>Everything one polling cycle reads from outside the process.\<close>

record world =
  net :: network
  fs :: filesystem
  docker :: docker_runtime
  time_time :: real
  datetime_now_isoformat :: string

section \<open>The probes\<close>

subsection \<open>Conductor health (first block of the cycle body)\<close>

text \<open>
  The result is the value stored in \<^verbatim>\<open>stats_cache['online']\<close>, together with the URLs
  requested, in order.
\<close>

definition check_health :: "config \<Rightarrow> network \<Rightarrow> bool \<times> string list" where
  "check_health cfg n =
     (case requests_get n (CONDUCTOR_URL cfg @ ''/health'') of
        Response st b \<Rightarrow> (st = 200, [CONDUCTOR_URL cfg @ ''/health''])
      | RequestFailed \<Rightarrow>
          (case requests_get n (CONDUCTOR_URL cfg) of
             Response st b \<Rightarrow>
               (st \<in> set [200, 404], [CONDUCTOR_URL cfg @ ''/health'', CONDUCTOR_URL cfg])
           | RequestFailed \<Rightarrow>
               (False, [CONDUCTOR_URL cfg @ ''/health'', CONDUCTOR_URL cfg])))"

subsection \<open>Storage\<close>

text \<open>\<^verbatim>\<open>os.path.join(a, b)\<close> on POSIX, for two components.\<close>

definition path_join :: "string \<Rightarrow> string \<Rightarrow> string" where
  "path_join a b =
     (if b \<noteq> [] \<and> hd b = CHR ''/'' then b
      else if a = [] \<or> last a = CHR ''/'' then a @ b
      else a @ ''/'' @ b)"

text \<open>
  The two nested loops of \<^verbatim>\<open>get_storage_used\<close>. The running \<^verbatim>\<open>total_size\<close> is threaded
  through; an exception leaves the loops with the total reached so far.
\<close>

datatype scan = Finished (total_size: int) | Aborted (total_size: int)

fun scan_files :: "filesystem \<Rightarrow> string \<Rightarrow> string list \<Rightarrow> int \<Rightarrow> scan" where
  "scan_files f dirpath [] t = Finished t"
| "scan_files f dirpath (x # xs) t =
     (let fp = path_join dirpath x
      in if path_exists f fp then
           (case path_getsize f fp of
              None \<Rightarrow> Aborted t
            | Some sz \<Rightarrow> scan_files f dirpath xs (t + sz))
         else scan_files f dirpath xs t)"

fun scan_walk :: "filesystem \<Rightarrow> walk_entry list \<Rightarrow> bool \<Rightarrow> int \<Rightarrow> scan" where
  "scan_walk f [] raises t = (if raises then Aborted t else Finished t)"
| "scan_walk f ((dirpath, dirnames, filenames) # rest) raises t =
     (case scan_files f dirpath filenames t of
        Aborted t' \<Rightarrow> Aborted t'
      | Finished t' \<Rightarrow> scan_walk f rest raises t')"

text \<open>
  \<^verbatim>\<open>except Exception: pass\<close> discards the exception; the function then returns
  \<^verbatim>\<open>total_size / (1024 * 1024)\<close>, a float. The quotient is taken as the real number it
  denotes: the division by a power of two is exact while the total is below \<open>2^53\<close>, and
  totals of file sizes stay far below the range where the conversion to a float fails.
\<close>

definition get_storage_used :: "config \<Rightarrow> filesystem \<Rightarrow> real" where
  "get_storage_used cfg f =
     (case os_walk f (DATA_DIR cfg) of
        (entries, raises) \<Rightarrow>
          real_of_int (total_size (scan_walk f entries raises 0)) / (1024 * 1024))"

subsection \<open>Containers\<close>

text \<open>
  The result is the returned \<^verbatim>\<open>dict\<close> (its items in insertion order), together with the
  calls made on the Docker client, in order.
\<close>

definition container_names :: "(string \<times> string) list" where
  "container_names =
     [(''conductor'', ''ourblock-conductor''),
      (''lair'', ''ourblock-lair''),
      (''ui'', ''ourblock-ui'')]"

fun inspect_loop ::
  "docker_runtime \<Rightarrow> (string \<times> string) list \<Rightarrow> (string \<times> string) list \<Rightarrow> runtime_call list
     \<Rightarrow> (string \<times> string) list \<times> runtime_call list" where
  "inspect_loop rt [] status calls = (status, calls)"
| "inspect_loop rt ((name, container_name) # rest) status calls =
     inspect_loop rt rest
       (AList.update name
          (case containers_get rt container_name of
             Found st \<Rightarrow> st
           | NotFound \<Rightarrow> ''not found''
           | OtherError \<Rightarrow> ''unknown'')
          status)
       (calls @ [ContainersGet container_name])"

definition get_container_status ::
  "config \<Rightarrow> docker_runtime \<Rightarrow> (string \<times> string) list \<times> runtime_call list" where
  "get_container_status cfg rt =
     (if \<not> DOCKER_AVAILABLE cfg then
        ([(''conductor'', ''docker unavailable''),
          (''lair'', ''docker unavailable''),
          (''ui'', ''docker unavailable'')], [])
      else if from_env_ok rt then inspect_loop rt container_names [] [FromEnv]
      else
        ([(''conductor'', ''unknown''), (''lair'', ''unknown''), (''ui'', ''unknown'')],
         [FromEnv]))"

subsection \<open>Conductor statistics\<close>

text \<open>
  The parsed body of a 200 response of the admin interface; \<^verbatim>\<open>None\<close> (\<open>JNull\<close>) when the
  request raises, the status is not 200, or \<^verbatim>\<open>response.json()\<close> raises.
\<close>

definition get_conductor_stats :: "config \<Rightarrow> network \<Rightarrow> json" where
  "get_conductor_stats cfg n =
     (case requests_post n (CONDUCTOR_URL cfg @ ''/api/admin/v0/interfaces'') (JObj []) of
        RequestFailed \<Rightarrow> JNull
      | Response st b \<Rightarrow>
          (if st = 200 then (case b of None \<Rightarrow> JNull | Some v \<Rightarrow> v) else JNull))"

section \<open>The shared cache and the polling cycle\<close>

text \<open>
  \<^verbatim>\<open>stats_cache\<close> is one module-level \<^verbatim>\<open>dict\<close> with eight fixed keys. \<^verbatim>\<open>uptime\<close> and
  \<^verbatim>\<open>storage_used_mb\<close> start as the integer 0 and hold floats afterwards; both are read as
  reals. \<^verbatim>\<open>peers_connected\<close> holds whatever value the admin interface sent.
\<close>

record stats =
  online :: bool
  uptime :: real
  start_time :: real
  vouches_processed :: int
  storage_used_mb :: real
  peers_connected :: json
  containers :: "(string \<times> string) list"
  last_update :: "string option"

definition stats_cache_init :: "real \<Rightarrow> stats" where
  "stats_cache_init t0 =
     \<lparr>online = False, uptime = 0, start_time = t0, vouches_processed = 0,
      storage_used_mb = 0, peers_connected = JInt 0, containers = [], last_update = None\<rparr>"

text \<open>
  One pass through the body of the \<^verbatim>\<open>while True\<close> loop of \<^verbatim>\<open>update_stats\<close>. Each
  assignment \<^verbatim>\<open>stats_cache[key] = value\<close> stores into the shared dictionary at once, so the
  cache passes through the listed states, one per store, the first being the state the
  pass starts from. When \<^verbatim>\<open>conductor_stats\<close> is truthy but not a \<^verbatim>\<open>dict\<close>, \<^verbatim>\<open>.get\<close>
  raises; the outer handler prints the error and the pass ends without the last two stores.
\<close>

definition update_stats_states :: "config \<Rightarrow> world \<Rightarrow> stats \<Rightarrow> stats list" where
  "update_stats_states cfg w s0 =
     (let s1 = s0\<lparr>online := fst (check_health cfg (net w))\<rparr>;
          s2 = s1\<lparr>uptime := time_time w - start_time s1\<rparr>;
          s3 = s2\<lparr>storage_used_mb := get_storage_used cfg (fs w)\<rparr>;
          s4 = s3\<lparr>containers := fst (get_container_status cfg (docker w))\<rparr>;
          conductor_stats = get_conductor_stats cfg (net w)
      in if truthy conductor_stats then
           (case py_get conductor_stats ''peers'' (JInt 0) of
              None \<Rightarrow> [s0, s1, s2, s3, s4]
            | Some p \<Rightarrow>
                (let s5 = s4\<lparr>peers_connected := p\<rparr>
                 in [s0, s1, s2, s3, s4, s5,
                     s5\<lparr>last_update := Some (datetime_now_isoformat w)\<rparr>]))
         else [s0, s1, s2, s3, s4, s4\<lparr>last_update := Some (datetime_now_isoformat w)\<rparr>])"

definition update_stats_body :: "config \<Rightarrow> world \<Rightarrow> stats \<Rightarrow> stats" where
  "update_stats_body cfg w s0 = last (update_stats_states cfg w s0)"


fun cache_history :: "config \<Rightarrow> world list \<Rightarrow> stats \<Rightarrow> stats list" where
  "cache_history cfg [] s = [s]"
| "cache_history cfg (w # ws) s =
     update_stats_states cfg w s @ cache_history cfg ws (update_stats_body cfg w s)"

section \<open>Request handlers\<close>

text \<open>
  \<^verbatim>\<open>round(x, 2)\<close> on a float: the nearest number with two decimals, ties to the even
  neighbour.
\<close>

definition py_round2 :: "real \<Rightarrow> real" where
  "py_round2 x =
     (let y = x * 100; f = \<lfloor>y\<rfloor>; r = y - of_int f
      in of_int (if r < 1 / 2 then f else if 1 / 2 < r then f + 1
                 else if even f then f else f + 1) / 100)"

text \<open>
  A handler runs with the module globals in scope: the configuration and the cache as it
  is at that moment. \<^verbatim>\<open>api_status\<close> returns the JSON object built by \<^verbatim>\<open>jsonify\<close>.
\<close>

definition api_status :: "config \<Rightarrow> stats \<Rightarrow> json" where
  "api_status cfg c =
     JObj [(''neighborhood_id'', JStr (NEIGHBORHOOD_ID cfg)),
           (''online'', JBool (online c)),
           (''uptime_seconds'', JFloat (uptime c)),
           (''uptime_formatted'', JStr (format_uptime (uptime c))),
           (''vouches_processed'', JInt (vouches_processed c)),
           (''storage_used_mb'', JFloat (py_round2 (storage_used_mb c))),
           (''peers_connected'', peers_connected c),
           (''containers'', JObj (map (\<lambda>(k, v). (k, JStr v)) (containers c))),
           (''last_update'', (case last_update c of None \<Rightarrow> JNull | Some t \<Rightarrow> JStr t))]"

definition api_neighborhood :: "config \<Rightarrow> stats \<Rightarrow> json" where
  "api_neighborhood cfg c =
     JObj [(''id'', JStr (NEIGHBORHOOD_ID cfg)),
           (''join_command'',
            JStr (''curl -fsSL https://ourblock.community/install.sh | bash -s -- -n ''
                  @ NEIGHBORHOOD_ID cfg))]"

text \<open>The body and the status code returned by \<^verbatim>\<open>/health\<close>.\<close>

definition health :: "config \<Rightarrow> stats \<Rightarrow> string \<times> int" where
  "health cfg c = (''OK'', 200)"

section \<open>Notions used to state the properties\<close>





section \<open>Concrete configurations and worlds\<close>

text \<open>The configuration of a process started with an empty environment and no Docker library.\<close>

definition default_config :: config where
  "default_config =
     \<lparr>NEIGHBORHOOD_ID = ''unknown'', CONDUCTOR_URL = ''http://ourblock:8001'',
      DATA_DIR = ''/data'', DOCKER_AVAILABLE = False\<rparr>"

text \<open>
  A conductor at the default address whose liveness path, root and admin interface answer
  as given.
\<close>

definition mock_network :: "http_result \<Rightarrow> http_result \<Rightarrow> http_result \<Rightarrow> network" where
  "mock_network h r a =
     \<lparr>requests_get = (\<lambda>url. if url = ''http://ourblock:8001/health'' then h
                              else if url = ''http://ourblock:8001'' then r
                              else RequestFailed),
      requests_post = (\<lambda>url body. if url = ''http://ourblock:8001/api/admin/v0/interfaces'' then a
                                    else RequestFailed)\<rparr>"

text \<open>
  The development conductor of \<^verbatim>\<open>mock_conductor.py\<close>, listening on port 8001: \<^verbatim>\<open>/health\<close>
  answers 200 with the text \<^verbatim>\<open>OK\<close> (not JSON), the root answers 200 with a JSON object, and
  the admin interface answers 200 with \<^verbatim>\<open>{"peers": 3}\<close>.
\<close>

definition mock_conductor :: network where
  "mock_conductor =
     mock_network (Response 200 None)
       (Response 200 (Some (JObj [(''service'', JStr ''OurBlock Mock Conductor''),
                                   (''status'', JStr ''running''),
                                   (''version'', JStr ''dev'')])))
       (Response 200 (Some (JObj [(''peers'', JInt 3)])))"

definition admin_reply :: "json \<Rightarrow> network" where
  "admin_reply v = mock_network (Response 200 None) (Response 200 None) (Response 200 (Some v))"

definition unreachable :: network where
  "unreachable = mock_network RequestFailed RequestFailed RequestFailed"

definition empty_filesystem :: filesystem where
  "empty_filesystem =
     \<lparr>os_walk = (\<lambda>top. ([(top, [], [])], False)),
      path_exists = (\<lambda>p. False),
      path_getsize = (\<lambda>p. None)\<rparr>"




definition running_runtime :: docker_runtime where
  "running_runtime = \<lparr>from_env_ok = True, containers_get = (\<lambda>name. Found ''running'')\<rparr>"

definition mock_world :: "network \<Rightarrow> world" where
  "mock_world n =
     \<lparr>net = n, fs = empty_filesystem, docker = running_runtime,
      time_time = 1010, datetime_now_isoformat = ''2024-01-01T00:00:10''\<rparr>"

definition live_world :: world where
  "live_world = mock_world mock_conductor"

section \<open>Evaluation of the concrete worlds\<close>

lemmas mock_eval = default_config_def mock_network_def mock_conductor_def mock_world_def
  admin_reply_def unreachable_def live_world_def empty_filesystem_def running_runtime_def
  stats_cache_init_def

section \<open>The health probe\<close>

text \<open>
  Claim C2, as stated, fails: a response with a non-OK status on the liveness path is not a
  failure that leads to a second attempt. With 500 on the liveness path and 200 on the
  root, only the liveness path is requested and \<open>online\<close> is false.
\<close>

theorem check_health_non_ok_counterexample:
  "requests_get (mock_network (Response 500 None) (Response 200 None) RequestFailed)
      (CONDUCTOR_URL default_config @ ''/health'') = Response 500 None
   \<and> requests_get (mock_network (Response 500 None) (Response 200 None) RequestFailed)
      (CONDUCTOR_URL default_config) = Response 200 None
   \<and> check_health default_config
        (mock_network (Response 500 None) (Response 200 None) RequestFailed)
      = (False, [''http://ourblock:8001/health''])"
  by (simp add: check_health_def default_config_def mock_network_def)

text \<open>
  Claim C2, amended. When the first attempt returns a response, \<open>online\<close> is true exactly
  when its status is 200, and no second attempt is made. When the first attempt raises
  (connection error, timeout), a second attempt is made against the service root, and
  \<open>online\<close> is true exactly when that attempt returns a response with status 200 or 404.
\<close>

theorem check_health_fallback:
  "(requests_get n (CONDUCTOR_URL cfg @ ''/health'') = Response st b \<longrightarrow>
      check_health cfg n = (st = 200, [CONDUCTOR_URL cfg @ ''/health'']))
   \<and> (requests_get n (CONDUCTOR_URL cfg @ ''/health'') = RequestFailed \<longrightarrow>
        snd (check_health cfg n) = [CONDUCTOR_URL cfg @ ''/health'', CONDUCTOR_URL cfg]
        \<and> (fst (check_health cfg n) \<longleftrightarrow>
             (\<exists>st' b'. requests_get n (CONDUCTOR_URL cfg) = Response st' b'
                \<and> (st' = 200 \<or> st' = 404))))"
  by (auto simp: check_health_def split: http_result.splits)

theorem check_health_fallback_witness:
  "check_health default_config
       (mock_network (Response 503 None) (Response 200 None) RequestFailed)
     = (False, [''http://ourblock:8001/health''])
   \<and> snd (check_health default_config
       (mock_network RequestFailed (Response 404 None) RequestFailed))
     = [''http://ourblock:8001/health'', ''http://ourblock:8001'']
   \<and> fst (check_health default_config
       (mock_network RequestFailed (Response 404 None) RequestFailed))"
  using check_health_fallback
      [of "mock_network (Response 503 None) (Response 200 None) RequestFailed"
        default_config 503 None]
    check_health_fallback
      [of "mock_network RequestFailed (Response 404 None) RequestFailed" default_config 0 None]
  by (simp add: default_config_def mock_network_def)

section \<open>The container inspection in degraded mode\<close>

text \<open>
  Claim C4. When the Docker library could not be imported at process start, every call of
  \<open>get_container_status\<close> returns one fixed status string, \<open>docker unavailable\<close>, for each
  of the names conductor, lair and ui, whatever the state of the runtime, and makes no
  call on the runtime.
\<close>

theorem get_container_status_degraded:
  "\<not> DOCKER_AVAILABLE cfg \<Longrightarrow>
     get_container_status cfg rt
       = ([(''conductor'', ''docker unavailable''), (''lair'', ''docker unavailable''),
           (''ui'', ''docker unavailable'')], [])"
  by (simp add: get_container_status_def)

theorem get_container_status_degraded_witness:
  "fst (get_container_status (default_config\<lparr>DOCKER_AVAILABLE := True\<rparr>) running_runtime)
     = [(''conductor'', ''running''), (''lair'', ''running''), (''ui'', ''running'')]
   \<and> get_container_status default_config running_runtime
       = ([(''conductor'', ''docker unavailable''), (''lair'', ''docker unavailable''),
           (''ui'', ''docker unavailable'')], [])"
  using get_container_status_degraded [of default_config running_runtime]
  by (simp add: default_config_def get_container_status_def running_runtime_def
      container_names_def)

section \<open>The storage scan\<close>










section \<open>The polling cycle\<close>

lemma update_stats_states_cases:
  "update_stats_states cfg w s0 =
     (let s4 = s0\<lparr>online := fst (check_health cfg (net w)),
                  uptime := time_time w - start_time s0,
                  storage_used_mb := get_storage_used cfg (fs w),
                  containers := fst (get_container_status cfg (docker w))\<rparr>
      in [s0,
          s0\<lparr>online := fst (check_health cfg (net w))\<rparr>,
          s0\<lparr>online := fst (check_health cfg (net w)), uptime := time_time w - start_time s0\<rparr>,
          s0\<lparr>online := fst (check_health cfg (net w)), uptime := time_time w - start_time s0,
             storage_used_mb := get_storage_used cfg (fs w)\<rparr>,
          s4]
         @ (if truthy (get_conductor_stats cfg (net w)) then
              (case py_get (get_conductor_stats cfg (net w)) ''peers'' (JInt 0) of
                 None \<Rightarrow> []
               | Some p \<Rightarrow> [s4\<lparr>peers_connected := p\<rparr>,
                             s4\<lparr>peers_connected := p,
                                last_update := Some (datetime_now_isoformat w)\<rparr>])
            else [s4\<lparr>last_update := Some (datetime_now_isoformat w)\<rparr>]))"
  by (simp add: update_stats_states_def Let_def split: option.splits)

lemma update_stats_body_cases:
  "update_stats_body cfg w s0 =
     (let s4 = s0\<lparr>online := fst (check_health cfg (net w)),
                  uptime := time_time w - start_time s0,
                  storage_used_mb := get_storage_used cfg (fs w),
                  containers := fst (get_container_status cfg (docker w))\<rparr>
      in if truthy (get_conductor_stats cfg (net w)) then
           (case py_get (get_conductor_stats cfg (net w)) ''peers'' (JInt 0) of
              None \<Rightarrow> s4
            | Some p \<Rightarrow> s4\<lparr>peers_connected := p,
                          last_update := Some (datetime_now_isoformat w)\<rparr>)
         else s4\<lparr>last_update := Some (datetime_now_isoformat w)\<rparr>)"
  by (simp add: update_stats_body_def update_stats_states_cases Let_def split: option.splits)


lemma peers_connected_update:
  "peers_connected (update_stats_body cfg w s) =
     (if truthy (get_conductor_stats cfg (net w)) then
        (case py_get (get_conductor_stats cfg (net w)) ''peers'' (JInt 0) of
           None \<Rightarrow> peers_connected s
         | Some p \<Rightarrow> p)
      else peers_connected s)"
  by (simp add: update_stats_body_cases Let_def split: option.splits)




subsection \<open>The peer count\<close>

text \<open>
  Claim C10. When the admin interface answers 200 with a JSON object, an empty object
  leaves \<open>peers_connected\<close> as it was, and a non-empty object without the key \<open>peers\<close>
  sets it to 0.
\<close>

theorem peers_connected_body_shape:
  assumes "requests_post (net w) (CONDUCTOR_URL cfg @ ''/api/admin/v0/interfaces'') (JObj [])
             = Response 200 (Some (JObj kvs))"
  shows "(kvs = [] \<longrightarrow> peers_connected (update_stats_body cfg w s) = peers_connected s)
         \<and> (kvs \<noteq> [] \<and> ''peers'' \<notin> fst ` set kvs \<longrightarrow>
              peers_connected (update_stats_body cfg w s) = JInt 0)"
  using assms
  by (auto simp: peers_connected_update get_conductor_stats_def map_of_eq_None_iff [THEN iffD2])

theorem peers_connected_body_shape_witness:
  "peers_connected (update_stats_body default_config (mock_world (admin_reply (JObj [])))
      ((stats_cache_init 1000)\<lparr>peers_connected := JInt 5\<rparr>)) = JInt 5
   \<and> peers_connected (update_stats_body default_config
        (mock_world (admin_reply (JObj [(''status'', JStr ''running'')])))
        ((stats_cache_init 1000)\<lparr>peers_connected := JInt 5\<rparr>)) = JInt 0"
  using peers_connected_body_shape [of "mock_world (admin_reply (JObj []))" default_config "[]"
      "(stats_cache_init 1000)\<lparr>peers_connected := JInt 5\<rparr>"]
    peers_connected_body_shape
      [of "mock_world (admin_reply (JObj [(''status'', JStr ''running'')]))"
        default_config "[(''status'', JStr ''running'')]"
        "(stats_cache_init 1000)\<lparr>peers_connected := JInt 5\<rparr>"]
  by (simp add: mock_eval)




subsection \<open>The inert counter\<close>

lemma update_stats_states_vouches:
  "c \<in> set (update_stats_states cfg w s0) \<Longrightarrow> vouches_processed c = vouches_processed s0"
  by (auto simp: update_stats_states_cases Let_def split: if_splits option.splits)

lemma update_stats_body_vouches:
  "vouches_processed (update_stats_body cfg w s0) = vouches_processed s0"
  by (simp add: update_stats_body_cases Let_def split: option.splits)

lemma cache_history_vouches:
  "c \<in> set (cache_history cfg ws s) \<Longrightarrow> vouches_processed c = vouches_processed s"
  by (induction ws arbitrary: s)
    (auto simp: update_stats_states_vouches update_stats_body_vouches)

text \<open>
  Claim C8. In every state the cache ever holds, from the initial one through any number
  of passes of the poller in any worlds, \<open>vouches_processed\<close> is 0, and so is the field of
  that name in the answer of \<open>api_status\<close> built from that state.
\<close>

theorem vouches_processed_inert:
  "c \<in> set (cache_history cfg ws (stats_cache_init t0)) \<Longrightarrow>
     vouches_processed c = 0
     \<and> py_get (api_status cfg c) ''vouches_processed'' JNull = Some (JInt 0)"
  using cache_history_vouches [of c cfg ws "stats_cache_init t0"]
  by (simp add: stats_cache_init_def api_status_def)

theorem vouches_processed_inert_witness:
  "py_get (api_status default_config
       (update_stats_body default_config live_world (stats_cache_init 1000)))
     ''vouches_processed'' JNull = Some (JInt 0)"
  using vouches_processed_inert
      [of "update_stats_body default_config live_world (stats_cache_init 1000)"
        default_config "[live_world]" 1000]
  by simp

subsection \<open>What a reader of the cache can see during a pass\<close>




section \<open>Uptime formatting: the three fields are those of the whole seconds\<close>










section \<open>The liveness endpoint\<close>

text \<open>
  Claim C9. Whatever the cache holds, also when every monitored field is degraded, the
  handler of \<open>/health\<close> answers with the body \<open>OK\<close> and the status 200.
\<close>

theorem health_always_ok: "health cfg c = (''OK'', 200)"
  by (simp add: health_def)

end
